theory Spec2Isabelle
  imports Main "HOL-Library.Char_ord" "HOL-Library.List_Lexorder" "HOL-Library.Option_ord"
    "HOL-Library.Product_Lexorder" "HOL-Library.Multiset"
begin

section \<open>The persistence layer of dopplerr (db.py)\<close>

text \<open>
  The module keeps three tables in one SQLite file, reached through the peewee ORM.
  A table is modelled as the list of its rows in rowid order, an exception as an
  \<open>error\<close> value returned next to the state reached when it was raised, and the wall
  clock (\<open>datetime.datetime.now\<close>, the default of every timestamp column) as an argument
  of the operation that reads it. The storage engine is taken as ideal: no I/O failure,
  and integers and strings are stored as they are given.
\<close>

subsection \<open>Timestamps\<close>

record datetime =
  year :: nat
  month :: nat
  day :: nat
  hour :: nat
  minute :: nat
  second :: nat
  microsecond :: nat


definition digit_char :: "nat \<Rightarrow> char" where
  "digit_char d = ''0123456789'' ! (d mod 10)"

definition pad2 :: "nat \<Rightarrow> string" where
  "pad2 n = [digit_char (n div 10), digit_char n]"

text \<open>\<open>%Y\<close>: the year as a decimal number, printed by the C library without padding
  (the year 999 gives three characters).\<close>

fun decimal :: "nat \<Rightarrow> string" where
  "decimal n = (if n < 10 then [digit_char n] else decimal (n div 10) @ [digit_char n])"

declare decimal.simps [simp del]

text \<open>\<open>strftime('%Y-%m-%dT%H:%M:%S')\<close>.\<close>

definition strftime :: "datetime \<Rightarrow> string" where
  "strftime d = decimal (year d) @ ''-'' @ pad2 (month d) @ ''-'' @ pad2 (day d) @ ''T''
     @ pad2 (hour d) @ '':'' @ pad2 (minute d) @ '':'' @ pad2 (second d)"

subsection \<open>Schema\<close>

record Events =
  ev_id :: nat
  ev_timestamp :: datetime
  ev_type :: string
  ev_message :: string

record SeriesMedias =
  sm_id :: nat
  sm_tv_db_id :: "int option"
  sm_season_number :: "int option"
  sm_episode_number :: "int option"
  sm_added_timestamp :: datetime
  sm_series_title :: "string option"
  sm_episode_title :: "string option"
  sm_quality :: "string option"
  sm_video_languages :: "string option"
  sm_dirty :: bool
  sm_media_filename :: string

record SeriesSubtitles =
  ss_id :: nat
  ss_added_timestamp :: datetime
  ss_series_media :: nat
  ss_language :: string

record database =
  events_tbl :: "Events list"
  medias_tbl :: "SeriesMedias list"
  subtitles_tbl :: "SeriesSubtitles list"

definition empty_db :: database where
  "empty_db = \<lparr>events_tbl = [], medias_tbl = [], subtitles_tbl = []\<rparr>"

datatype error = AssertionError | IntegrityError | FileNotFoundError | PermissionError

text \<open>The rowid SQLite gives to a new row of a table with an integer primary key: one more
  than the largest in use.\<close>

definition next_rowid :: "nat list \<Rightarrow> nat" where
  "next_rowid ids = Suc (fold max ids 0)"

subsection \<open>Query clauses\<close>

text \<open>\<open>ORDER BY key DESC\<close>: NULL sorts below every value, as \<open>None\<close> does in the order on
  options. SQL leaves the order of rows with equal keys open; here they keep rowid order.\<close>

fun insert_desc :: "('a \<Rightarrow> 'k::linorder) \<Rightarrow> 'a \<Rightarrow> 'a list \<Rightarrow> 'a list" where
  "insert_desc f x [] = [x]"
| "insert_desc f x (y # ys) = (if f y \<le> f x then x # y # ys else y # insert_desc f x ys)"

definition order_by_desc :: "('a \<Rightarrow> 'k::linorder) \<Rightarrow> 'a list \<Rightarrow> 'a list" where
  "order_by_desc f xs = foldr (insert_desc f) xs []"

text \<open>\<open>LIMIT n\<close>: SQLite reads a negative limit as no limit.\<close>

definition sql_limit :: "int \<Rightarrow> 'a list \<Rightarrow> 'a list" where
  "sql_limit n xs = (if n < 0 then xs else take (nat n) xs)"

subsection \<open>Events\<close>

definition insert_event :: "datetime \<Rightarrow> string \<Rightarrow> string \<Rightarrow> database \<Rightarrow> database" where
  "insert_event now thetype message db =
     db\<lparr>events_tbl := events_tbl db @
        [\<lparr>ev_id = next_rowid (map ev_id (events_tbl db)), ev_timestamp = now,
          ev_type = thetype, ev_message = message\<rparr>]\<rparr>"




subsection \<open>Find-or-create\<close>

text \<open>\<open>_get_or_create\<close>: \<open>model.get\<close> returns the first matching row or raises
  \<open>DoesNotExist\<close> (here \<open>None\<close>), which is caught and answered by \<open>model.create\<close>.
  The flag tells whether the row was created. An error of \<open>create\<close> is not caught.\<close>

definition get_or_create ::
  "(database \<Rightarrow> 'r option) \<Rightarrow> (database \<Rightarrow> (error + 'r) \<times> database) \<Rightarrow> database
     \<Rightarrow> (error + 'r \<times> bool) \<times> database" where
  "get_or_create get create db =
     (case get db of
        Some it \<Rightarrow> (Inr (it, False), db)
      | None \<Rightarrow>
          (case create db of
             (Inl e, db') \<Rightarrow> (Inl e, db')
           | (Inr it, db') \<Rightarrow> (Inr (it, True), db')))"

subsection \<open>SeriesMedias\<close>

text \<open>A keyword argument that is \<open>None\<close> is compiled by the ORM to \<open>IS NULL\<close>, any other
  to \<open>=\<close>, so a row matches when the column equals the argument as an optional value.\<close>

definition SeriesMedias_get ::
  "int option \<Rightarrow> int option \<Rightarrow> int option \<Rightarrow> string \<Rightarrow> database \<Rightarrow> SeriesMedias option" where
  "SeriesMedias_get tv_db_id season_number episode_number media_filename db =
     find (\<lambda>r. sm_tv_db_id r = tv_db_id \<and> sm_season_number r = season_number
              \<and> sm_episode_number r = episode_number \<and> sm_media_filename r = media_filename)
       (medias_tbl db)"

definition SeriesMedias_create ::
  "datetime \<Rightarrow> int option \<Rightarrow> int option \<Rightarrow> int option \<Rightarrow> string \<Rightarrow> database
     \<Rightarrow> (error + SeriesMedias) \<times> database" where
  "SeriesMedias_create now tv_db_id season_number episode_number media_filename db =
     (let it = \<lparr>sm_id = next_rowid (map sm_id (medias_tbl db)), sm_tv_db_id = tv_db_id,
                 sm_season_number = season_number, sm_episode_number = episode_number,
                 sm_added_timestamp = now, sm_series_title = None, sm_episode_title = None,
                 sm_quality = None, sm_video_languages = None, sm_dirty = True,
                 sm_media_filename = media_filename\<rparr>
      in (Inr it, db\<lparr>medias_tbl := medias_tbl db @ [it]\<rparr>))"

text \<open>\<open>save\<close> on a row that has its primary key: \<open>UPDATE ... WHERE id = ?\<close> with every
  field of the object.\<close>

definition SeriesMedias_save :: "SeriesMedias \<Rightarrow> database \<Rightarrow> database" where
  "SeriesMedias_save m db =
     db\<lparr>medias_tbl := map (\<lambda>r. if sm_id r = sm_id m then m else r) (medias_tbl db)\<rparr>"

text \<open>\<open>assert media_filename\<close> fails on \<open>None\<close> and on the empty string.\<close>

definition update_series_media ::
  "datetime \<Rightarrow> string option \<Rightarrow> int option \<Rightarrow> int option \<Rightarrow> int option \<Rightarrow> string option
     \<Rightarrow> string option \<Rightarrow> string option \<Rightarrow> string option \<Rightarrow> bool \<Rightarrow> database
     \<Rightarrow> (error + unit) \<times> database" where
  "update_series_media now series_title tv_db_id season_number episode_number episode_title
       quality video_languages media_filename dirty db =
     (case media_filename of
        None \<Rightarrow> (Inl AssertionError, db)
      | Some fn \<Rightarrow>
          if fn = [] then (Inl AssertionError, db)
          else
            (case get_or_create (SeriesMedias_get tv_db_id season_number episode_number fn)
                    (SeriesMedias_create now tv_db_id season_number episode_number fn) db of
               (Inl e, db') \<Rightarrow> (Inl e, db')
             | (Inr (media, _), db') \<Rightarrow>
                 (Inr (),
                  SeriesMedias_save
                    (media\<lparr>sm_series_title := series_title, sm_episode_title := episode_title,
                       sm_quality := quality, sm_video_languages := video_languages,
                       sm_dirty := dirty, sm_media_filename := fn\<rparr>) db')))"

definition media_exists :: "string \<Rightarrow> database \<Rightarrow> bool" where
  "media_exists media_filename db =
     (filter (\<lambda>r. sm_media_filename r = media_filename) (medias_tbl db) \<noteq> [])"

subsection \<open>SeriesSubtitles\<close>

record series_episode_uid =
  uid_tv_db_id :: "int option"
  uid_season_number :: "int option"
  uid_episode_number :: "int option"

text \<open>The query \<open>media\<close> of \<open>update_fetched_series_subtitles\<close>. It is lazy: each use
  runs it on the tables as they are then.\<close>

definition select_media :: "series_episode_uid \<Rightarrow> database \<Rightarrow> SeriesMedias list" where
  "select_media uid db =
     filter (\<lambda>r. sm_tv_db_id r = uid_tv_db_id uid \<and> sm_season_number r = uid_season_number uid
                \<and> sm_episode_number r = uid_episode_number uid) (medias_tbl db)"

text \<open>Given as the value of the foreign key, the query becomes a scalar subquery on the
  primary key: the id of its first row, NULL when it has none.\<close>

definition scalar_subquery :: "SeriesMedias list \<Rightarrow> nat option" where
  "scalar_subquery rows = (case rows of [] \<Rightarrow> None | r # _ \<Rightarrow> Some (sm_id r))"

text \<open>A comparison with NULL holds for no row.\<close>

definition SeriesSubtitles_get ::
  "series_episode_uid \<Rightarrow> string \<Rightarrow> database \<Rightarrow> SeriesSubtitles option" where
  "SeriesSubtitles_get uid lang db =
     (case scalar_subquery (select_media uid db) of
        None \<Rightarrow> None
      | Some mid \<Rightarrow> find (\<lambda>s. ss_series_media s = mid \<and> ss_language s = lang) (subtitles_tbl db))"

text \<open>The foreign key column is NOT NULL: inserting the NULL of an empty subquery raises
  \<open>IntegrityError\<close>.\<close>

definition SeriesSubtitles_create ::
  "datetime \<Rightarrow> series_episode_uid \<Rightarrow> string \<Rightarrow> database \<Rightarrow> (error + SeriesSubtitles) \<times> database" where
  "SeriesSubtitles_create now uid lang db =
     (case scalar_subquery (select_media uid db) of
        None \<Rightarrow> (Inl IntegrityError, db)
      | Some mid \<Rightarrow>
          (let it = \<lparr>ss_id = next_rowid (map ss_id (subtitles_tbl db)), ss_added_timestamp = now,
                      ss_series_media = mid, ss_language = lang\<rparr>
           in (Inr it, db\<lparr>subtitles_tbl := subtitles_tbl db @ [it]\<rparr>)))"

text \<open>The loop over \<open>subtitles_languages\<close>; \<open>now i\<close> is the clock when the language at
  position \<open>i\<close> is handled.\<close>

fun create_subtitles ::
  "(nat \<Rightarrow> datetime) \<Rightarrow> nat \<Rightarrow> series_episode_uid \<Rightarrow> string list \<Rightarrow> database
     \<Rightarrow> (error + unit) \<times> database" where
  "create_subtitles now i uid [] db = (Inr (), db)"
| "create_subtitles now i uid (lang # langs) db =
     (case get_or_create (SeriesSubtitles_get uid lang) (SeriesSubtitles_create (now i) uid lang) db of
        (Inl e, db') \<Rightarrow> (Inl e, db')
      | (Inr _, db') \<Rightarrow> create_subtitles now (Suc i) uid langs db')"

text \<open>The loop \<open>for m in media: m.dirty = dirty; m.save()\<close> over the rows the query
  returns when the loop starts.\<close>

definition set_dirty :: "bool \<Rightarrow> SeriesMedias list \<Rightarrow> database \<Rightarrow> database" where
  "set_dirty dirty ms db = fold (\<lambda>m. SeriesMedias_save (m\<lparr>sm_dirty := dirty\<rparr>)) ms db"

definition update_fetched_series_subtitles ::
  "(nat \<Rightarrow> datetime) \<Rightarrow> series_episode_uid \<Rightarrow> string list \<Rightarrow> bool \<Rightarrow> database
     \<Rightarrow> (error + unit) \<times> database" where
  "update_fetched_series_subtitles now uid subtitles_languages dirty db =
     (case create_subtitles now 0 uid subtitles_languages db of
        (Inl e, db') \<Rightarrow> (Inl e, db')
      | (Inr _, db') \<Rightarrow> (Inr (), set_dirty dirty (select_media uid db') db'))"

subsection \<open>Listing the medias\<close>

record media_dict =
  md_added_timestamp :: string
  md_series_title :: "string option"
  md_season_number :: "int option"
  md_episode_number :: "int option"
  md_episode_title :: "string option"
  md_quality :: "string option"
  md_video_languages :: "string option"
  md_subtitle_languages :: "string list"
  md_dirty :: bool

text \<open>\<open>med.subtitles\<close>, the back-reference of the foreign key.\<close>

definition subtitles_of :: "SeriesMedias \<Rightarrow> database \<Rightarrow> SeriesSubtitles list" where
  "subtitles_of med db = filter (\<lambda>s. ss_series_media s = sm_id med) (subtitles_tbl db)"

definition media_to_dict :: "database \<Rightarrow> SeriesMedias \<Rightarrow> media_dict" where
  "media_to_dict db med =
     \<lparr>md_added_timestamp = strftime (sm_added_timestamp med),
      md_series_title = sm_series_title med,
      md_season_number = sm_season_number med,
      md_episode_number = sm_episode_number med,
      md_episode_title = sm_episode_title med,
      md_quality = sm_quality med,
      md_video_languages = sm_video_languages med,
      md_subtitle_languages = sort (map ss_language (subtitles_of med db)),
      md_dirty = sm_dirty med\<rparr>"

definition get_medias_series :: "database \<Rightarrow> media_dict list" where
  "get_medias_series db =
     (let limit = 100
      in map (media_to_dict db) (sql_limit limit (order_by_desc sm_series_title (medias_tbl db))))"

subsection \<open>Initialisation\<close>

text \<open>The file system as far as \<open>Path.unlink\<close> sees it: a path holds no file, a file that
  can be removed, or one whose removal is refused.\<close>

datatype file_entry = Removable | Protected

type_synonym filesystem = "string \<Rightarrow> file_entry option"

definition unlink :: "string \<Rightarrow> filesystem \<Rightarrow> (error + unit) \<times> filesystem" where
  "unlink p fs =
     (case fs p of
        None \<Rightarrow> (Inl FileNotFoundError, fs)
      | Some Protected \<Rightarrow> (Inl PermissionError, fs)
      | Some Removable \<Rightarrow> (Inr (), fs(p := None)))"

text \<open>The singleton: the recorded path and the database handle, opened at first use
  (the path it was opened on).\<close>

record DopplerrDb =
  sqlite_db_path :: "string option"
  db_handle :: "string option option"

definition DopplerrDb_new :: DopplerrDb where
  "DopplerrDb_new = \<lparr>sqlite_db_path = None, db_handle = None\<rparr>"

definition database_property :: "DopplerrDb \<Rightarrow> DopplerrDb" where
  "database_property self =
     (case db_handle self of
        None \<Rightarrow> self\<lparr>db_handle := Some (sqlite_db_path self)\<rparr>
      | Some _ \<Rightarrow> self)"

definition init ::
  "string \<Rightarrow> bool \<Rightarrow> DopplerrDb \<Rightarrow> filesystem \<Rightarrow> (error + unit) \<times> DopplerrDb \<times> filesystem" where
  "init sqlite_db_path_arg reset_db self fs =
     (let self' = self\<lparr>sqlite_db_path := Some sqlite_db_path_arg\<rparr>
      in if reset_db then
           (case unlink sqlite_db_path_arg fs of
              (Inl e, fs') \<Rightarrow> (Inl e, self', fs')
            | (Inr _, fs') \<Rightarrow> (Inr (), self', fs'))
         else (Inr (), self', fs))"

subsection \<open>Notions used in the properties\<close>

text \<open>The identity key of a media row, the rows that carry a given key, uniqueness of the
  primary key (which the engine enforces), and the overwriting of the descriptive fields
  and the dirty flag.\<close>

definition identity_key :: "SeriesMedias \<Rightarrow> int option \<times> int option \<times> int option \<times> string" where
  "identity_key r = (sm_tv_db_id r, sm_season_number r, sm_episode_number r, sm_media_filename r)"

definition rows_with_key :: "int option \<times> int option \<times> int option \<times> string \<Rightarrow> database \<Rightarrow> SeriesMedias list" where
  "rows_with_key k db = filter (\<lambda>r. identity_key r = k) (medias_tbl db)"

definition pk_unique :: "database \<Rightarrow> bool" where
  "pk_unique db = distinct (map sm_id (medias_tbl db))"

definition overwrite :: "string option \<Rightarrow> string option \<Rightarrow> string option \<Rightarrow> string option \<Rightarrow> bool \<Rightarrow> SeriesMedias \<Rightarrow> SeriesMedias" where
  "overwrite st et q vl dirty r = r\<lparr>sm_series_title := st, sm_episode_title := et,
                       sm_quality := q, sm_video_languages := vl, sm_dirty := dirty\<rparr>"




text \<open>Clock readings for the examples.\<close>

definition sample_time :: "nat \<Rightarrow> datetime" where
  "sample_time s = \<lparr>year = 2018, month = 3, day = 9, hour = 21, minute = 5, second = s,
     microsecond = 250\<rparr>"

text \<open>The (series_media, language) pairs of the subtitle rows, and the test of the
  \<open>where\<close> clause of \<open>update_fetched_series_subtitles\<close>.\<close>

definition subtitle_pairs :: "database \<Rightarrow> (nat \<times> string) list" where
  "subtitle_pairs db = map (\<lambda>s. (ss_series_media s, ss_language s)) (subtitles_tbl db)"

definition matches_uid :: "series_episode_uid \<Rightarrow> SeriesMedias \<Rightarrow> bool" where
  "matches_uid uid r \<longleftrightarrow> sm_tv_db_id r = uid_tv_db_id uid \<and> sm_season_number r = uid_season_number uid
      \<and> sm_episode_number r = uid_episode_number uid"

text \<open>A database for the examples: two episodes of one series, the first with an English
  subtitle.\<close>

definition sample_db :: database where
  "sample_db =
     \<lparr>events_tbl = [],
      medias_tbl =
        [\<lparr>sm_id = 1, sm_tv_db_id = Some 100, sm_season_number = Some 1, sm_episode_number = Some 2,
          sm_added_timestamp = sample_time 0, sm_series_title = Some ''Show'',
          sm_episode_title = None, sm_quality = Some ''1080p'', sm_video_languages = None,
          sm_dirty = True, sm_media_filename = ''ep2.mkv''\<rparr>,
         \<lparr>sm_id = 2, sm_tv_db_id = Some 100, sm_season_number = Some 1, sm_episode_number = Some 3,
          sm_added_timestamp = sample_time 1, sm_series_title = Some ''Show'',
          sm_episode_title = None, sm_quality = None, sm_video_languages = None,
          sm_dirty = True, sm_media_filename = ''ep3.mkv''\<rparr>],
      subtitles_tbl =
        [\<lparr>ss_id = 1, ss_added_timestamp = sample_time 2, ss_series_media = 1,
          ss_language = ''en''\<rparr>]\<rparr>"

definition sample_uid :: series_episode_uid where
  "sample_uid = \<lparr>uid_tv_db_id = Some 100, uid_season_number = Some 1, uid_episode_number = Some 2\<rparr>"

text \<open>The databases the module can produce from a file in which the tables have just been
  created, and the invariant they all satisfy.\<close>

inductive reachable :: "database \<Rightarrow> bool" where
  fresh: "reachable empty_db"
| event: "reachable db \<Longrightarrow> reachable (insert_event now thetype message db)"
| media: "reachable db \<Longrightarrow>
     reachable (snd (update_series_media now series_title tv_db_id season_number episode_number
       episode_title quality video_languages media_filename dirty db))"
| subtitles: "reachable db \<Longrightarrow>
     reachable (snd (update_fetched_series_subtitles clock uid subtitles_languages dirty db))"

definition db_invariant :: "database \<Rightarrow> bool" where
  "db_invariant db \<longleftrightarrow> pk_unique db \<and> distinct (map identity_key (medias_tbl db))
      \<and> distinct (subtitle_pairs db)"

section \<open>Properties\<close>

subsection \<open>Auxiliary facts\<close>

lemma fold_max_lower: "(a::nat) \<le> fold max ids a"
proof (induction ids arbitrary: a)
  case Nil
  show ?case by simp
next
  case (Cons x xs)
  have "a \<le> max x a" by simp
  also have "max x a \<le> fold max xs (max x a)" by (rule Cons.IH)
  finally show ?case by simp
qed

lemma fold_max_upper: "x \<in> set ids \<Longrightarrow> (x::nat) \<le> fold max ids a"
proof (induction ids arbitrary: a)
  case Nil
  then show ?case by simp
next
  case (Cons y ys)
  show ?case
  proof (cases "x = y")
    case True
    have "x \<le> max y a" using True by simp
    also have "max y a \<le> fold max ys (max y a)" by (rule fold_max_lower)
    finally show ?thesis by simp
  next
    case False
    with Cons.prems have "x \<in> set ys" by simp
    from Cons.IH[OF this] show ?thesis by simp
  qed
qed

lemma next_rowid_fresh: "next_rowid ids \<notin> set ids"
proof
  assume "next_rowid ids \<in> set ids"
  from fold_max_upper[OF this, of 0] show False by (simp add: next_rowid_def)
qed

lemma update_found:
  assumes "SeriesMedias_get tv sn en fn db = Some r" "fn \<noteq> []"
  shows "update_series_media now st tv sn en et q vl (Some fn) dirty db =
     (Inr (), SeriesMedias_save (r\<lparr>sm_series_title := st, sm_episode_title := et,
                       sm_quality := q, sm_video_languages := vl,
                       sm_dirty := dirty, sm_media_filename := fn\<rparr>) db)"
  using assms by (simp add: update_series_media_def get_or_create_def)

lemma update_created:
  assumes "SeriesMedias_get tv sn en fn db = None" "fn \<noteq> []"
  shows "update_series_media now st tv sn en et q vl (Some fn) dirty db =
     (Inr (), db\<lparr>medias_tbl := medias_tbl db @ 
        [\<lparr>sm_id = next_rowid (map sm_id (medias_tbl db)), sm_tv_db_id = tv,
                 sm_season_number = sn, sm_episode_number = en,
                 sm_added_timestamp = now, sm_series_title = st, sm_episode_title = et,
                 sm_quality = q, sm_video_languages = vl, sm_dirty = dirty,
                 sm_media_filename = fn\<rparr>]\<rparr>)"
proof -
  have "\<forall>r \<in> set (medias_tbl db). sm_id r \<noteq> next_rowid (map sm_id (medias_tbl db))"
    using next_rowid_fresh[of "map sm_id (medias_tbl db)"] by (metis image_eqI list.set_map)
  hence "map (\<lambda>r. if sm_id r = next_rowid (map sm_id (medias_tbl db)) then x else r) (medias_tbl db) = medias_tbl db" for x
    by (simp add: map_idI)
  thus ?thesis using assms
    by (simp add: update_series_media_def get_or_create_def SeriesMedias_create_def SeriesMedias_save_def Let_def)
qed


lemma find_filter: "find P xs = (case filter P xs of [] \<Rightarrow> None | x # _ \<Rightarrow> Some x)"
  by (induction xs) auto

lemma SeriesMedias_get_key:
  "SeriesMedias_get tv sn en fn db = find (\<lambda>r. identity_key r = (tv, sn, en, fn)) (medias_tbl db)"
  by (simp add: SeriesMedias_get_def identity_key_def)

lemma save_pk:
  assumes "distinct (map sm_id rows)" "r0 \<in> set rows"
  shows "map (\<lambda>r. if sm_id r = sm_id r0 then m else r) rows = map (\<lambda>r. if r = r0 then m else r) rows"
proof (rule map_cong[OF refl])
  fix r assume "r \<in> set rows"
  with assms have "sm_id r = sm_id r0 \<longleftrightarrow> r = r0"
    by (meson distinct_map inj_onD)
  thus "(if sm_id r = sm_id r0 then m else r) = (if r = r0 then m else r)" by simp
qed

text \<open>What a successful call does to the table.\<close>

lemma update_series_media_table:
  assumes pk: "pk_unique db" and fn: "fn \<noteq> []"
  shows "\<exists>db'. update_series_media now st tv sn en et q vl (Some fn) dirty db = (Inr (), db')
     \<and> events_tbl db' = events_tbl db \<and> subtitles_tbl db' = subtitles_tbl db
     \<and> (case rows_with_key (tv, sn, en, fn) db of
          [] \<Rightarrow> medias_tbl db' = medias_tbl db @
             [\<lparr>sm_id = next_rowid (map sm_id (medias_tbl db)), sm_tv_db_id = tv,
                 sm_season_number = sn, sm_episode_number = en,
                 sm_added_timestamp = now, sm_series_title = st, sm_episode_title = et,
                 sm_quality = q, sm_video_languages = vl, sm_dirty = dirty,
                 sm_media_filename = fn\<rparr>]
        | r0 # _ \<Rightarrow> medias_tbl db' = map (\<lambda>r. if r = r0 then overwrite st et q vl dirty r0 else r) (medias_tbl db))"
proof (cases "rows_with_key (tv, sn, en, fn) db")
  case Nil
  hence "SeriesMedias_get tv sn en fn db = None"
    by (simp add: SeriesMedias_get_key find_filter rows_with_key_def)
  from update_created[OF this fn] Nil show ?thesis by simp
next
  case (Cons r0 rest)
  hence g: "SeriesMedias_get tv sn en fn db = Some r0"
    by (simp add: SeriesMedias_get_key find_filter rows_with_key_def)
  have "r0 \<in> set (rows_with_key (tv, sn, en, fn) db)" using Cons by simp
  hence r0: "r0 \<in> set (medias_tbl db)" and k: "identity_key r0 = (tv, sn, en, fn)"
    by (simp_all add: rows_with_key_def)
  have same: "r0\<lparr>sm_series_title := st, sm_episode_title := et, sm_quality := q,
         sm_video_languages := vl, sm_dirty := dirty, sm_media_filename := fn\<rparr> = overwrite st et q vl dirty r0"
    using k by (simp add: overwrite_def identity_key_def)
  have "sm_id (overwrite st et q vl dirty r0) = sm_id r0" by (simp add: overwrite_def)
  show ?thesis
    using update_found[OF g fn, of now st et q vl dirty] Cons save_pk[OF pk[unfolded pk_unique_def] r0]
    by (simp add: same SeriesMedias_save_def overwrite_def)
qed


lemma identity_key_overwrite [simp]: "identity_key (overwrite st et q vl dirty r) = identity_key r"
  by (simp add: identity_key_def overwrite_def)

lemma sm_id_overwrite [simp]: "sm_id (overwrite st et q vl dirty r) = sm_id r"
  by (simp add: overwrite_def)

lemma filter_map_replace:
  assumes "P m = P r0"
  shows "filter P (map (\<lambda>r. if r = r0 then m else r) xs) = map (\<lambda>r. if r = r0 then m else r) (filter P xs)"
  using assms by (induction xs) auto

lemma update_series_media_rows:
  assumes pk: "pk_unique db" and fn: "fn \<noteq> []"
    and one: "length (rows_with_key (tv, sn, en, fn) db) \<le> 1"
  shows "\<exists>db' m. update_series_media now st tv sn en et q vl (Some fn) dirty db = (Inr (), db')
     \<and> pk_unique db'
     \<and> rows_with_key (tv, sn, en, fn) db' = [m]
     \<and> identity_key m = (tv, sn, en, fn)
     \<and> sm_series_title m = st \<and> sm_episode_title m = et \<and> sm_quality m = q
     \<and> sm_video_languages m = vl \<and> sm_dirty m = dirty
     \<and> (\<forall>k. k \<noteq> (tv, sn, en, fn) \<longrightarrow> rows_with_key k db' = rows_with_key k db)"
proof -
  let ?k = "(tv, sn, en, fn)"
  from update_series_media_table[OF pk fn, of now st tv sn en et q vl dirty]
  obtain db' where call: "update_series_media now st tv sn en et q vl (Some fn) dirty db = (Inr (), db')"
    and tbl: "(case rows_with_key ?k db of
          [] \<Rightarrow> medias_tbl db' = medias_tbl db @
             [\<lparr>sm_id = next_rowid (map sm_id (medias_tbl db)), sm_tv_db_id = tv,
                 sm_season_number = sn, sm_episode_number = en,
                 sm_added_timestamp = now, sm_series_title = st, sm_episode_title = et,
                 sm_quality = q, sm_video_languages = vl, sm_dirty = dirty,
                 sm_media_filename = fn\<rparr>]
        | r0 # _ \<Rightarrow> medias_tbl db' = map (\<lambda>r. if r = r0 then overwrite st et q vl dirty r0 else r) (medias_tbl db))"
    by blast
  show ?thesis
  proof (cases "rows_with_key ?k db")
    case Nil
    let ?new = "\<lparr>sm_id = next_rowid (map sm_id (medias_tbl db)), sm_tv_db_id = tv,
                 sm_season_number = sn, sm_episode_number = en,
                 sm_added_timestamp = now, sm_series_title = st, sm_episode_title = et,
                 sm_quality = q, sm_video_languages = vl, sm_dirty = dirty,
                 sm_media_filename = fn\<rparr>"
    from tbl Nil have t: "medias_tbl db' = medias_tbl db @ [?new]" by simp
    have "pk_unique db'"
      using pk next_rowid_fresh[of "map sm_id (medias_tbl db)"] by (simp add: pk_unique_def t)
    moreover have "rows_with_key ?k db' = [?new]"
      using Nil by (simp add: rows_with_key_def t identity_key_def)
    moreover have "\<forall>k. k \<noteq> ?k \<longrightarrow> rows_with_key k db' = rows_with_key k db"
      by (auto simp: rows_with_key_def t identity_key_def)
    ultimately show ?thesis using call by (simp add: identity_key_def)
  next
    case (Cons r0 rest)
    with one have rows: "rows_with_key ?k db = [r0]" by simp
    let ?m = "overwrite st et q vl dirty r0"
    from tbl Cons have t: "medias_tbl db' = map (\<lambda>r. if r = r0 then ?m else r) (medias_tbl db)" by simp
    have "r0 \<in> set (rows_with_key ?k db)" using rows by simp
    hence k0: "identity_key r0 = ?k" by (simp add: rows_with_key_def)
    have "map sm_id (medias_tbl db') = map sm_id (medias_tbl db)"
      by (simp add: t o_def if_distrib[of sm_id] cong: if_cong)
    hence "pk_unique db'" using pk by (simp add: pk_unique_def)
    moreover have "rows_with_key k db' = map (\<lambda>r. if r = r0 then ?m else r) (rows_with_key k db)" for k
      unfolding rows_with_key_def t by (rule filter_map_replace) simp
    moreover from this have "\<forall>k. k \<noteq> ?k \<longrightarrow> rows_with_key k db' = rows_with_key k db"
      using k0 by (auto simp: rows_with_key_def intro!: map_idI)
    moreover have "sm_series_title ?m = st \<and> sm_episode_title ?m = et \<and> sm_quality ?m = q
       \<and> sm_video_languages ?m = vl \<and> sm_dirty ?m = dirty"
      by (simp add: overwrite_def)
    moreover have "identity_key ?m = ?k" using k0 by simp
    ultimately show ?thesis using call rows by simp
  qed
qed


lemma update_series_media_frame:
  assumes pk: "pk_unique db"
  shows "\<exists>db'. snd (update_series_media now st tv sn en et q vl (Some fn) dirty db) = db'
     \<and> (medias_tbl db' = medias_tbl db
          \<or> (\<exists>new. medias_tbl db' = medias_tbl db @ [new] \<and> sm_media_filename new = fn)
          \<or> (\<exists>r0. identity_key r0 = (tv, sn, en, fn)
                \<and> medias_tbl db' = map (\<lambda>r. if r = r0 then overwrite st et q vl dirty r0 else r) (medias_tbl db)))"
proof (cases "fn = []")
  case True
  thus ?thesis by (simp add: update_series_media_def)
next
  case False
  from update_series_media_table[OF pk False, of now st tv sn en et q vl dirty]
  obtain db' where call: "update_series_media now st tv sn en et q vl (Some fn) dirty db = (Inr (), db')"
    and tbl: "(case rows_with_key (tv, sn, en, fn) db of
          [] \<Rightarrow> medias_tbl db' = medias_tbl db @
             [\<lparr>sm_id = next_rowid (map sm_id (medias_tbl db)), sm_tv_db_id = tv,
                 sm_season_number = sn, sm_episode_number = en,
                 sm_added_timestamp = now, sm_series_title = st, sm_episode_title = et,
                 sm_quality = q, sm_video_languages = vl, sm_dirty = dirty,
                 sm_media_filename = fn\<rparr>]
        | r0 # _ \<Rightarrow> medias_tbl db' = map (\<lambda>r. if r = r0 then overwrite st et q vl dirty r0 else r) (medias_tbl db))"
    by blast
  show ?thesis
  proof (cases "rows_with_key (tv, sn, en, fn) db")
    case Nil
    with tbl call show ?thesis by simp
  next
    case (Cons r0 rest)
    hence "r0 \<in> set (rows_with_key (tv, sn, en, fn) db)" by simp
    hence "identity_key r0 = (tv, sn, en, fn)" by (simp add: rows_with_key_def)
    with tbl call Cons show ?thesis by auto
  qed
qed

lemma media_exists_set: "media_exists f db \<longleftrightarrow> (\<exists>r \<in> set (medias_tbl db). sm_media_filename r = f)"
  by (auto simp: media_exists_def filter_empty_conv)

lemma update_series_media_inserts:
  assumes "f \<noteq> []"
  shows "fst (update_series_media now st tv sn en et q vl (Some f) dirty db) = Inr ()
     \<and> media_exists f (snd (update_series_media now st tv sn en et q vl (Some f) dirty db))"
proof (cases "SeriesMedias_get tv sn en f db")
  case None
  from update_created[OF None assms, of now st et q vl dirty] show ?thesis
    by (simp add: media_exists_set)
next
  case (Some r0)
  let ?m = "r0\<lparr>sm_series_title := st, sm_episode_title := et, sm_quality := q,
             sm_video_languages := vl, sm_dirty := dirty, sm_media_filename := f\<rparr>"
  let ?db' = "SeriesMedias_save ?m db"
  from Some have "r0 \<in> set (medias_tbl db)"
    by (auto simp: SeriesMedias_get_def find_Some_iff)
  hence "(\<lambda>r. if sm_id r = sm_id ?m then ?m else r) r0 \<in> set (medias_tbl ?db')"
    unfolding SeriesMedias_save_def by (simp del: SeriesMedias.simps)
  hence "?m \<in> set (medias_tbl ?db')" by simp
  moreover have "sm_media_filename ?m = f" by simp
  ultimately have "media_exists f ?db'" unfolding media_exists_set by blast
  with update_found[OF Some assms, of now st et q vl dirty] show ?thesis by simp
qed

lemma media_exists_image: "media_exists f db \<longleftrightarrow> f \<in> sm_media_filename ` set (medias_tbl db)"
  by (auto simp: media_exists_set)

lemma update_series_media_other_filename:
  assumes "pk_unique db" "g \<noteq> f"
  shows "media_exists f (snd (update_series_media now st tv sn en et q vl (Some g) dirty db)) = media_exists f db"
proof -
  from update_series_media_frame[OF assms(1), of now st tv sn en et q vl g dirty]
  consider (same) "medias_tbl (snd (update_series_media now st tv sn en et q vl (Some g) dirty db)) = medias_tbl db"
    | (app) new where "medias_tbl (snd (update_series_media now st tv sn en et q vl (Some g) dirty db)) = medias_tbl db @ [new]"
       "sm_media_filename new = g"
    | (upd) r0 where "identity_key r0 = (tv, sn, en, g)"
        "medias_tbl (snd (update_series_media now st tv sn en et q vl (Some g) dirty db)) = map (\<lambda>r. if r = r0 then overwrite st et q vl dirty r0 else r) (medias_tbl db)"
    by auto
  thus ?thesis
  proof cases
    case same
    thus ?thesis by (simp add: media_exists_set)
  next
    case app
    thus ?thesis using assms(2) by (auto simp: media_exists_set)
  next
    case upd
    have "map sm_media_filename (map (\<lambda>r. if r = r0 then overwrite st et q vl dirty r0 else r) (medias_tbl db))
        = map sm_media_filename (medias_tbl db)"
      by (auto simp: overwrite_def)
    hence "sm_media_filename ` set (medias_tbl (snd (update_series_media now st tv sn en et q vl (Some g) dirty db)))
         = sm_media_filename ` set (medias_tbl db)"
      using upd(2) by (metis list.set_map)
    thus ?thesis by (simp only: media_exists_image)
  qed
qed

lemma mset_insert_desc: "mset (insert_desc f x ys) = add_mset x (mset ys)"
  by (induction ys) auto

lemma set_insert_desc: "set (insert_desc f x ys) = insert x (set ys)"
  by (induction ys) auto

lemma sorted_insert_desc:
  "sorted_wrt (\<lambda>a b. f b \<le> f a) ys \<Longrightarrow> sorted_wrt (\<lambda>a b. f b \<le> f a) (insert_desc f x ys)"
proof (induction ys)
  case Nil
  show ?case by simp
next
  case (Cons y ys)
  show ?case
  proof (cases "f y \<le> f x")
    case True
    with Cons.prems show ?thesis by (auto intro: order_trans)
  next
    case False
    hence "f x \<le> f y" by simp
    with Cons show ?thesis by (auto simp: set_insert_desc)
  qed
qed

lemma mset_order_by_desc: "mset (order_by_desc f xs) = mset xs"
  unfolding order_by_desc_def by (induction xs) (simp_all add: mset_insert_desc)

lemma length_order_by_desc: "length (order_by_desc f xs) = length xs"
  using mset_order_by_desc[of f xs] by (metis size_mset)

lemma sorted_order_by_desc: "sorted_wrt (\<lambda>a b. f b \<le> f a) (order_by_desc f xs)"
  unfolding order_by_desc_def by (induction xs) (simp_all add: sorted_insert_desc)


lemma select_media_matches: "select_media uid db = filter (matches_uid uid) (medias_tbl db)"
  by (simp add: select_media_def matches_uid_def[abs_def])

lemma select_media_cong: "medias_tbl db' = medias_tbl db \<Longrightarrow> select_media uid db' = select_media uid db"
  by (simp add: select_media_def)

lemma subtitle_step:
  assumes rep: "scalar_subquery (select_media uid db) = Some mid"
  shows "\<exists>r db'. get_or_create (SeriesSubtitles_get uid lang) (SeriesSubtitles_create t uid lang) db = (Inr r, db')
     \<and> medias_tbl db' = medias_tbl db \<and> events_tbl db' = events_tbl db
     \<and> (distinct (subtitle_pairs db) \<longrightarrow> distinct (subtitle_pairs db'))
     \<and> set (subtitle_pairs db') = insert (mid, lang) (set (subtitle_pairs db))"
proof (cases "find (\<lambda>s. ss_series_media s = mid \<and> ss_language s = lang) (subtitles_tbl db)")
  case None
  hence fresh: "(mid, lang) \<notin> set (subtitle_pairs db)"
    by (auto simp: find_None_iff subtitle_pairs_def)
  from None rep have "get_or_create (SeriesSubtitles_get uid lang) (SeriesSubtitles_create t uid lang) db
      = (Inr (\<lparr>ss_id = next_rowid (map ss_id (subtitles_tbl db)), ss_added_timestamp = t,
                      ss_series_media = mid, ss_language = lang\<rparr>, True),
         db\<lparr>subtitles_tbl := subtitles_tbl db @ [\<lparr>ss_id = next_rowid (map ss_id (subtitles_tbl db)), ss_added_timestamp = t,
                      ss_series_media = mid, ss_language = lang\<rparr>]\<rparr>)"
    by (simp add: get_or_create_def SeriesSubtitles_get_def SeriesSubtitles_create_def Let_def)
  moreover have "medias_tbl (db\<lparr>subtitles_tbl := subtitles_tbl db @ [\<lparr>ss_id = next_rowid (map ss_id (subtitles_tbl db)), ss_added_timestamp = t,
                      ss_series_media = mid, ss_language = lang\<rparr>]\<rparr>) = medias_tbl db" by simp
  moreover have "events_tbl (db\<lparr>subtitles_tbl := subtitles_tbl db @ [\<lparr>ss_id = next_rowid (map ss_id (subtitles_tbl db)), ss_added_timestamp = t,
                      ss_series_media = mid, ss_language = lang\<rparr>]\<rparr>) = events_tbl db" by simp
  moreover have "subtitle_pairs (db\<lparr>subtitles_tbl := subtitles_tbl db @ [\<lparr>ss_id = next_rowid (map ss_id (subtitles_tbl db)), ss_added_timestamp = t,
                      ss_series_media = mid, ss_language = lang\<rparr>]\<rparr>) = subtitle_pairs db @ [(mid, lang)]"
    by (simp add: subtitle_pairs_def)
  ultimately show ?thesis using fresh by (metis distinct1_rotate distinct.simps(2) rotate1.simps(2) list.simps(15) set_rotate1)
next
  case (Some s)
  hence "s \<in> set (subtitles_tbl db)" "ss_series_media s = mid" "ss_language s = lang"
    by (auto simp: find_Some_iff)
  hence "(mid, lang) \<in> set (subtitle_pairs db)" by (force simp: subtitle_pairs_def)
  moreover from Some rep have "get_or_create (SeriesSubtitles_get uid lang) (SeriesSubtitles_create t uid lang) db
      = (Inr (s, False), db)"
    by (simp add: get_or_create_def SeriesSubtitles_get_def)
  ultimately have "get_or_create (SeriesSubtitles_get uid lang) (SeriesSubtitles_create t uid lang) db
      = (Inr (s, False), db)
     \<and> medias_tbl db = medias_tbl db \<and> events_tbl db = events_tbl db
     \<and> (distinct (subtitle_pairs db) \<longrightarrow> distinct (subtitle_pairs db))
     \<and> set (subtitle_pairs db) = insert (mid, lang) (set (subtitle_pairs db))"
    by (simp add: insert_absorb)
  thus ?thesis by blast
qed

lemma create_subtitles_matched:
  assumes "scalar_subquery (select_media uid db) = Some mid"
  shows "\<exists>db'. create_subtitles now i uid langs db = (Inr (), db')
     \<and> medias_tbl db' = medias_tbl db \<and> events_tbl db' = events_tbl db
     \<and> (distinct (subtitle_pairs db) \<longrightarrow> distinct (subtitle_pairs db'))
     \<and> set (subtitle_pairs db') = set (subtitle_pairs db) \<union> {mid} \<times> set langs"
  using assms
proof (induction langs arbitrary: i db)
  case Nil
  show ?case by simp
next
  case (Cons lang langs)
  from subtitle_step[OF Cons.prems, of lang "now i"]
  obtain r db1 where s: "get_or_create (SeriesSubtitles_get uid lang) (SeriesSubtitles_create (now i) uid lang) db = (Inr r, db1)"
    and m1: "medias_tbl db1 = medias_tbl db" and e1: "events_tbl db1 = events_tbl db"
    and d1: "distinct (subtitle_pairs db) \<longrightarrow> distinct (subtitle_pairs db1)"
    and p1: "set (subtitle_pairs db1) = insert (mid, lang) (set (subtitle_pairs db))"
    by blast
  have "scalar_subquery (select_media uid db1) = Some mid"
    using Cons.prems select_media_cong[OF m1] by simp
  from Cons.IH[OF this, of "Suc i"]
  obtain db' where c: "create_subtitles now (Suc i) uid langs db1 = (Inr (), db')"
    and m2: "medias_tbl db' = medias_tbl db1" and e2: "events_tbl db' = events_tbl db1"
    and d2: "distinct (subtitle_pairs db1) \<longrightarrow> distinct (subtitle_pairs db')"
    and p2: "set (subtitle_pairs db') = set (subtitle_pairs db1) \<union> {mid} \<times> set langs"
    by blast
  have "create_subtitles now i uid (lang # langs) db = (Inr (), db')"
    using s c by simp
  moreover have "set (subtitle_pairs db') = set (subtitle_pairs db) \<union> {mid} \<times> set (lang # langs)"
    using p1 p2 by auto
  ultimately show ?case using m1 m2 e1 e2 d1 d2 by auto
qed

lemma create_subtitles_unmatched:
  assumes "scalar_subquery (select_media uid db) = None"
  shows "create_subtitles now i uid langs db = (if langs = [] then Inr () else Inl IntegrityError, db)"
  using assms
  by (cases langs)
     (simp_all add: get_or_create_def SeriesSubtitles_get_def SeriesSubtitles_create_def)

lemma set_dirty_fold:
  assumes "distinct (map sm_id rows)" "set ms \<subseteq> set rows"
    and "medias_tbl db = map (\<lambda>r. if r \<in> D then r\<lparr>sm_dirty := dirty\<rparr> else r) rows"
  shows "medias_tbl (set_dirty dirty ms db)
       = map (\<lambda>r. if r \<in> D \<union> set ms then r\<lparr>sm_dirty := dirty\<rparr> else r) rows
     \<and> subtitles_tbl (set_dirty dirty ms db) = subtitles_tbl db
     \<and> events_tbl (set_dirty dirty ms db) = events_tbl db"
  using assms(2,3)
proof (induction ms arbitrary: db D)
  case Nil
  thus ?case by (simp add: set_dirty_def)
next
  case (Cons m ms)
  let ?db1 = "SeriesMedias_save (m\<lparr>sm_dirty := dirty\<rparr>) db"
  from Cons.prems have m: "m \<in> set rows" and ms: "set ms \<subseteq> set rows" by simp_all
  let ?h = "\<lambda>r. if r \<in> D then r\<lparr>sm_dirty := dirty\<rparr> else r"
  have "medias_tbl ?db1 = map (\<lambda>r. if sm_id (?h r) = sm_id m then m\<lparr>sm_dirty := dirty\<rparr> else ?h r) rows"
    by (simp add: SeriesMedias_save_def Cons.prems(2) o_def del: SeriesMedias.simps)
  also have "\<dots> = map (\<lambda>r. if r \<in> insert m D then r\<lparr>sm_dirty := dirty\<rparr> else r) rows"
  proof (rule map_cong[OF refl])
    fix r assume r: "r \<in> set rows"
    from assms(1) r m have "sm_id r = sm_id m \<longleftrightarrow> r = m" by (meson distinct_map inj_onD)
    moreover have "sm_id (?h r) = sm_id r" by simp
    ultimately show "(if sm_id (?h r) = sm_id m then m\<lparr>sm_dirty := dirty\<rparr> else ?h r)
        = (if r \<in> insert m D then r\<lparr>sm_dirty := dirty\<rparr> else r)"
      by auto
  qed
  finally have "medias_tbl ?db1 = map (\<lambda>r. if r \<in> insert m D then r\<lparr>sm_dirty := dirty\<rparr> else r) rows" .
  from Cons.IH[OF ms this]
  show ?case by (simp add: set_dirty_def SeriesMedias_save_def)
qed


lemma set_dirty_select:
  assumes "pk_unique db"
  shows "medias_tbl (set_dirty dirty (select_media uid db) db)
       = map (\<lambda>r. if matches_uid uid r then r\<lparr>sm_dirty := dirty\<rparr> else r) (medias_tbl db)
     \<and> subtitles_tbl (set_dirty dirty (select_media uid db) db) = subtitles_tbl db
     \<and> events_tbl (set_dirty dirty (select_media uid db) db) = events_tbl db"
proof -
  have d: "distinct (map sm_id (medias_tbl db))" using assms by (simp add: pk_unique_def)
  have s: "set (select_media uid db) \<subseteq> set (medias_tbl db)" by (simp add: select_media_matches)
  have b: "medias_tbl db = map (\<lambda>r. if r \<in> {} then r\<lparr>sm_dirty := dirty\<rparr> else r) (medias_tbl db)"
    by simp
  have "map (\<lambda>r. if r \<in> {} \<union> set (select_media uid db) then r\<lparr>sm_dirty := dirty\<rparr> else r) (medias_tbl db)
      = map (\<lambda>r. if matches_uid uid r then r\<lparr>sm_dirty := dirty\<rparr> else r) (medias_tbl db)"
    by (rule map_cong[OF refl]) (simp add: select_media_matches)
  with set_dirty_fold[OF d s b] show ?thesis by simp
qed

lemma matches_uid_dirty [simp]: "matches_uid uid (r\<lparr>sm_dirty := d\<rparr>) = matches_uid uid r"
  by (simp add: matches_uid_def)

lemma scalar_subquery_dirty:
  assumes "medias_tbl db' = map (\<lambda>r. if matches_uid uid r then r\<lparr>sm_dirty := dirty\<rparr> else r) (medias_tbl db)"
  shows "scalar_subquery (select_media uid' db') = scalar_subquery (select_media uid' db)"
proof -
  let ?g = "\<lambda>r. if matches_uid uid r then r\<lparr>sm_dirty := dirty\<rparr> else r"
  have "filter (matches_uid uid') (map ?g xs) = map ?g (filter (matches_uid uid') xs)" for xs
    by (induction xs) auto
  hence "select_media uid' db' = map ?g (select_media uid' db)"
    by (simp add: select_media_matches assms)
  thus ?thesis by (cases "select_media uid' db") (simp_all add: scalar_subquery_def)
qed

lemma pk_unique_dirty:
  assumes "medias_tbl db' = map (\<lambda>r. if matches_uid uid r then r\<lparr>sm_dirty := dirty\<rparr> else r) (medias_tbl db)"
    and "pk_unique db"
  shows "pk_unique db'"
proof -
  have "map sm_id (medias_tbl db') = map sm_id (medias_tbl db)"
    unfolding assms(1) by (induction "medias_tbl db") auto
  with assms(2) show ?thesis by (simp add: pk_unique_def)
qed

lemma scalar_subquery_None: "scalar_subquery (select_media uid db) = None \<longleftrightarrow> (\<forall>r \<in> set (medias_tbl db). \<not> matches_uid uid r)"
  by (cases "select_media uid db")
     (auto simp: scalar_subquery_def select_media_matches filter_empty_conv dest: filter_eq_ConsD)

lemma update_fetched_effect:
  assumes pk: "pk_unique db"
  shows "medias_tbl (snd (update_fetched_series_subtitles now uid langs dirty db))
       = map (\<lambda>r. if matches_uid uid r then r\<lparr>sm_dirty := dirty\<rparr> else r) (medias_tbl db)
     \<and> events_tbl (snd (update_fetched_series_subtitles now uid langs dirty db)) = events_tbl db
     \<and> (case scalar_subquery (select_media uid db) of
          None \<Rightarrow> update_fetched_series_subtitles now uid langs dirty db
                   = (if langs = [] then Inr () else Inl IntegrityError, db)
        | Some mid \<Rightarrow> fst (update_fetched_series_subtitles now uid langs dirty db) = Inr ()
            \<and> (distinct (subtitle_pairs db) \<longrightarrow>
                 distinct (subtitle_pairs (snd (update_fetched_series_subtitles now uid langs dirty db))))
            \<and> set (subtitle_pairs (snd (update_fetched_series_subtitles now uid langs dirty db)))
                = set (subtitle_pairs db) \<union> {mid} \<times> set langs)"
proof (cases "scalar_subquery (select_media uid db)")
  case None
  hence nomatch: "\<forall>r \<in> set (medias_tbl db). \<not> matches_uid uid r" by (simp add: scalar_subquery_None)
  hence sel: "select_media uid db = []" by (simp add: select_media_matches filter_empty_conv)
  have id: "map (\<lambda>r. if matches_uid uid r then r\<lparr>sm_dirty := dirty\<rparr> else r) (medias_tbl db) = medias_tbl db"
    using nomatch by (simp add: map_idI)
  have "update_fetched_series_subtitles now uid langs dirty db
      = (if langs = [] then Inr () else Inl IntegrityError, db)"
    by (simp add: update_fetched_series_subtitles_def create_subtitles_unmatched[OF None] sel set_dirty_def)
  with None id show ?thesis by simp
next
  case (Some mid)
  from create_subtitles_matched[OF Some, of now 0 langs]
  obtain db1 where c: "create_subtitles now 0 uid langs db = (Inr (), db1)"
    and m1: "medias_tbl db1 = medias_tbl db" and e1: "events_tbl db1 = events_tbl db"
    and d1: "distinct (subtitle_pairs db) \<longrightarrow> distinct (subtitle_pairs db1)"
    and p1: "set (subtitle_pairs db1) = set (subtitle_pairs db) \<union> {mid} \<times> set langs"
    by blast
  have pk1: "pk_unique db1" using pk m1 by (simp add: pk_unique_def)
  let ?db' = "set_dirty dirty (select_media uid db1) db1"
  have r: "update_fetched_series_subtitles now uid langs dirty db = (Inr (), ?db')"
    by (simp add: update_fetched_series_subtitles_def c)
  from set_dirty_select[OF pk1, of dirty uid]
  have m2: "medias_tbl ?db' = map (\<lambda>r. if matches_uid uid r then r\<lparr>sm_dirty := dirty\<rparr> else r) (medias_tbl db)"
    and s2: "subtitles_tbl ?db' = subtitles_tbl db1" and e2: "events_tbl ?db' = events_tbl db1"
    by (simp_all add: m1)
  have "subtitle_pairs ?db' = subtitle_pairs db1" by (simp add: subtitle_pairs_def s2)
  with Some r m2 e2 e1 d1 p1 show ?thesis by simp
qed

text \<open>Every reachable database has unique primary keys, at most one media row for an
  identity key and no two subtitle rows with the same (series_media, language) pair.\<close>

lemma rows_with_key_nil: "rows_with_key k db = [] \<longleftrightarrow> k \<notin> set (map identity_key (medias_tbl db))"
  by (auto simp: rows_with_key_def filter_empty_conv)

lemma distinct_key_rows:
  assumes "distinct (map identity_key (medias_tbl db))"
  shows "length (rows_with_key k db) \<le> 1"
proof -
  have "distinct (map f xs) \<Longrightarrow> length (filter (\<lambda>r. f r = k) xs) \<le> 1" for f :: "SeriesMedias \<Rightarrow> int option \<times> int option \<times> int option \<times> string" and xs
    by (induction xs) (auto simp: filter_empty_conv image_iff)
  from this[OF assms] show ?thesis by (simp add: rows_with_key_def)
qed

lemma invariant_update_series_media:
  assumes inv: "db_invariant db"
  shows "db_invariant (snd (update_series_media now st tv sn en et q vl mf dirty db))"
proof (cases "mf = None \<or> mf = Some []")
  case True
  thus ?thesis using inv by (auto simp: update_series_media_def)
next
  case False
  then obtain fn where mf: "mf = Some fn" and fn: "fn \<noteq> []" by auto
  from inv have pk: "pk_unique db" and dk: "distinct (map identity_key (medias_tbl db))"
    and ds: "distinct (subtitle_pairs db)" by (simp_all add: db_invariant_def)
  from update_series_media_table[OF pk fn, of now st tv sn en et q vl dirty]
  obtain db' where call: "update_series_media now st tv sn en et q vl (Some fn) dirty db = (Inr (), db')"
    and su: "subtitles_tbl db' = subtitles_tbl db"
    and tbl: "(case rows_with_key (tv, sn, en, fn) db of
          [] \<Rightarrow> medias_tbl db' = medias_tbl db @
             [\<lparr>sm_id = next_rowid (map sm_id (medias_tbl db)), sm_tv_db_id = tv,
                 sm_season_number = sn, sm_episode_number = en,
                 sm_added_timestamp = now, sm_series_title = st, sm_episode_title = et,
                 sm_quality = q, sm_video_languages = vl, sm_dirty = dirty,
                 sm_media_filename = fn\<rparr>]
        | r0 # _ \<Rightarrow> medias_tbl db' = map (\<lambda>r. if r = r0 then overwrite st et q vl dirty r0 else r) (medias_tbl db))"
    by blast
  have sp: "distinct (subtitle_pairs db')" using ds su by (simp add: subtitle_pairs_def)
  have "pk_unique db' \<and> distinct (map identity_key (medias_tbl db'))"
  proof (cases "rows_with_key (tv, sn, en, fn) db")
    case Nil
    hence "(tv, sn, en, fn) \<notin> set (map identity_key (medias_tbl db))" by (simp add: rows_with_key_nil)
    moreover have "next_rowid (map sm_id (medias_tbl db)) \<notin> set (map sm_id (medias_tbl db))"
      by (rule next_rowid_fresh)
    ultimately show ?thesis using tbl Nil pk dk by (simp add: pk_unique_def identity_key_def)
  next
    case (Cons r0 rest)
    with tbl have t: "medias_tbl db' = map (\<lambda>r. if r = r0 then overwrite st et q vl dirty r0 else r) (medias_tbl db)"
      by simp
    have "map sm_id (medias_tbl db') = map sm_id (medias_tbl db)"
      unfolding t by (induction "medias_tbl db") auto
    moreover have "map identity_key (medias_tbl db') = map identity_key (medias_tbl db)"
      unfolding t by (induction "medias_tbl db") auto
    ultimately show ?thesis using pk dk by (simp add: pk_unique_def)
  qed
  with sp call mf show ?thesis by (simp add: db_invariant_def)
qed

lemma invariant_update_fetched:
  assumes inv: "db_invariant db"
  shows "db_invariant (snd (update_fetched_series_subtitles now uid langs dirty db))"
proof -
  let ?db' = "snd (update_fetched_series_subtitles now uid langs dirty db)"
  from inv have pk: "pk_unique db" and dk: "distinct (map identity_key (medias_tbl db))"
    and ds: "distinct (subtitle_pairs db)" by (simp_all add: db_invariant_def)
  note e = update_fetched_effect[OF pk, of now uid langs dirty]
  from e have m: "medias_tbl ?db' = map (\<lambda>r. if matches_uid uid r then r\<lparr>sm_dirty := dirty\<rparr> else r) (medias_tbl db)"
    by simp
  have pk': "pk_unique ?db'" by (rule pk_unique_dirty[OF m pk])
  have "map identity_key (medias_tbl ?db') = map identity_key (medias_tbl db)"
    unfolding m by (induction "medias_tbl db") (auto simp: identity_key_def)
  hence dk': "distinct (map identity_key (medias_tbl ?db'))" using dk by simp
  have "distinct (subtitle_pairs ?db')"
  proof (cases "scalar_subquery (select_media uid db)")
    case None
    with e have "?db' = db" by simp
    with ds show ?thesis by simp
  next
    case (Some mid)
    with e ds show ?thesis by simp
  qed
  with pk' dk' show ?thesis by (simp add: db_invariant_def)
qed

lemma reachable_invariant: "reachable db \<Longrightarrow> db_invariant db"
proof (induction rule: reachable.induct)
  case fresh
  show ?case by (simp add: db_invariant_def pk_unique_def subtitle_pairs_def empty_db_def)
next
  case (event db now thetype message)
  thus ?case by (simp add: db_invariant_def pk_unique_def subtitle_pairs_def insert_event_def)
next
  case (media db)
  from media.IH show ?case by (rule invariant_update_series_media)
next
  case (subtitles db)
  from subtitles.IH show ?case by (rule invariant_update_fetched)
qed

lemma reachable_hypotheses:
  assumes "reachable db"
  shows "pk_unique db" and "length (rows_with_key k db) \<le> 1" and "distinct (subtitle_pairs db)"
  using reachable_invariant[OF assms] distinct_key_rows[of db k] by (simp_all add: db_invariant_def)










subsection \<open>Claims\<close>

text \<open>C7: a call of \<open>update_series_media\<close> whose \<open>media_filename\<close> is empty (the empty
  string, or \<open>None\<close>) fails with the assertion error, and the database it leaves is the
  database it was given: no row is created or modified.\<close>

theorem update_series_media_empty_filename:
  "update_series_media now st tv sn en et q vl (Some []) dirty db = (Inl AssertionError, db)
   \<and> update_series_media now st tv sn en et q vl None dirty db = (Inl AssertionError, db)"
  by (simp add: update_series_media_def)


text \<open>C2: on a database whose primary keys are unique and that holds at most one row with
  the identity key (tv_db_id, season_number, episode_number, media_filename), null
  components included, two calls of \<open>update_series_media\<close> with that key and the same
  field values both succeed, the second leaves the database exactly as the first left it,
  and exactly one row carries the key.\<close>

theorem update_series_media_idempotent:
  assumes "pk_unique db" and "fn \<noteq> []"
    and "length (rows_with_key (tv, sn, en, fn) db) \<le> 1"
  shows "\<exists>db1. update_series_media now1 st tv sn en et q vl (Some fn) dirty db = (Inr (), db1)
     \<and> update_series_media now2 st tv sn en et q vl (Some fn) dirty db1 = (Inr (), db1)
     \<and> length (rows_with_key (tv, sn, en, fn) db1) = 1"
proof -
  let ?k = "(tv, sn, en, fn)"
  from update_series_media_rows[OF assms, of now1 st et q vl dirty]
  obtain db1 m where c1: "update_series_media now1 st tv sn en et q vl (Some fn) dirty db = (Inr (), db1)"
    and pk1: "pk_unique db1" and rows1: "rows_with_key ?k db1 = [m]"
    and m: "sm_series_title m = st" "sm_episode_title m = et" "sm_quality m = q"
       "sm_video_languages m = vl" "sm_dirty m = dirty"
    by blast
  from update_series_media_table[OF pk1 assms(2), of now2 st tv sn en et q vl dirty]
  obtain db2 where c2: "update_series_media now2 st tv sn en et q vl (Some fn) dirty db1 = (Inr (), db2)"
    and ev: "events_tbl db2 = events_tbl db1" and su: "subtitles_tbl db2 = subtitles_tbl db1"
    and tbl: "medias_tbl db2 = map (\<lambda>r. if r = m then overwrite st et q vl dirty m else r) (medias_tbl db1)"
    using rows1 by auto
  have "overwrite st et q vl dirty m = m" using m by (simp add: overwrite_def)
  with tbl have "medias_tbl db2 = medias_tbl db1" by (simp add: map_idI)
  with ev su have "db2 = db1" by simp
  with c1 c2 rows1 show ?thesis by simp
qed

theorem update_series_media_idempotent_witness:
  "pk_unique empty_db \<and> ''ep2.mkv'' \<noteq> []
   \<and> length (rows_with_key (Some 100, None, Some 2, ''ep2.mkv'') empty_db) \<le> 1
   \<and> (\<exists>db1. update_series_media (sample_time 1) (Some ''Show'') (Some 100) None (Some 2) None (Some ''1080p'') None
              (Some ''ep2.mkv'') True empty_db = (Inr (), db1)
         \<and> update_series_media (sample_time 2) (Some ''Show'') (Some 100) None (Some 2) None (Some ''1080p'') None
              (Some ''ep2.mkv'') True db1 = (Inr (), db1)
         \<and> length (rows_with_key (Some 100, None, Some 2, ''ep2.mkv'') db1) = 1)"
proof -
  have h1: "pk_unique empty_db" by (simp add: pk_unique_def empty_db_def)
  have h2: "''ep2.mkv'' \<noteq> []" by simp
  have h3: "length (rows_with_key (Some 100, None, Some 2, ''ep2.mkv'') empty_db) \<le> 1"
    by (simp add: rows_with_key_def empty_db_def)
  from update_series_media_idempotent[OF h1 h2 h3] h1 h2 h3 show ?thesis by blast
qed

text \<open>C3: under the same conditions, after two calls with the same identity key and
  different field values there is exactly one row with the key, and its descriptive fields
  (quality among them) and its dirty flag are those of the second call.\<close>

theorem update_series_media_last_write_wins:
  assumes "pk_unique db" and "fn \<noteq> []"
    and "length (rows_with_key (tv, sn, en, fn) db) \<le> 1"
  shows "\<exists>db1 db2 m.
       update_series_media now1 st1 tv sn en et1 q1 vl1 (Some fn) dirty1 db = (Inr (), db1)
     \<and> update_series_media now2 st2 tv sn en et2 q2 vl2 (Some fn) dirty2 db1 = (Inr (), db2)
     \<and> rows_with_key (tv, sn, en, fn) db2 = [m]
     \<and> sm_series_title m = st2 \<and> sm_episode_title m = et2 \<and> sm_quality m = q2
     \<and> sm_video_languages m = vl2 \<and> sm_dirty m = dirty2"
proof -
  let ?k = "(tv, sn, en, fn)"
  from update_series_media_rows[OF assms, of now1 st1 et1 q1 vl1 dirty1]
  obtain db1 m1 where c1: "update_series_media now1 st1 tv sn en et1 q1 vl1 (Some fn) dirty1 db = (Inr (), db1)"
    and pk1: "pk_unique db1" and rows1: "rows_with_key ?k db1 = [m1]"
    by blast
  from rows1 have "length (rows_with_key ?k db1) \<le> 1" by simp
  from update_series_media_rows[OF pk1 assms(2) this, of now2 st2 et2 q2 vl2 dirty2] c1
  show ?thesis by blast
qed

theorem update_series_media_last_write_wins_witness:
  "\<exists>db1 db2 m.
       update_series_media (sample_time 1) None (Some 7) (Some 1) (Some 2) None (Some ''720p'') None
         (Some ''a.mkv'') True
         \<lparr>events_tbl = [],
          medias_tbl = [\<lparr>sm_id = 1, sm_tv_db_id = Some 7, sm_season_number = Some 1,
             sm_episode_number = Some 2, sm_added_timestamp = sample_time 0, sm_series_title = None,
             sm_episode_title = None, sm_quality = None, sm_video_languages = None,
             sm_dirty = True, sm_media_filename = ''a.mkv''\<rparr>],
          subtitles_tbl = []\<rparr> = (Inr (), db1)
     \<and> update_series_media (sample_time 2) (Some ''S'') (Some 7) (Some 1) (Some 2) None (Some ''1080p'') None
         (Some ''a.mkv'') False db1 = (Inr (), db2)
     \<and> rows_with_key (Some 7, Some 1, Some 2, ''a.mkv'') db2 = [m]
     \<and> sm_series_title m = Some ''S'' \<and> sm_episode_title m = None \<and> sm_quality m = Some ''1080p''
     \<and> sm_video_languages m = None \<and> sm_dirty m = False"
proof -
  let ?db = "\<lparr>events_tbl = [],
          medias_tbl = [\<lparr>sm_id = 1, sm_tv_db_id = Some 7, sm_season_number = Some 1,
             sm_episode_number = Some 2, sm_added_timestamp = sample_time 0, sm_series_title = None,
             sm_episode_title = None, sm_quality = None, sm_video_languages = None,
             sm_dirty = True, sm_media_filename = ''a.mkv''\<rparr>],
          subtitles_tbl = []\<rparr>"
  have h1: "pk_unique ?db" by (simp add: pk_unique_def)
  have h2: "''a.mkv'' \<noteq> []" by simp
  have h3: "length (rows_with_key (Some 7, Some 1, Some 2, ''a.mkv'') ?db) \<le> 1"
    by (simp add: rows_with_key_def)
  from update_series_media_last_write_wins[OF h1 h2 h3] show ?thesis by blast
qed

text \<open>C6: \<open>media_exists f\<close> holds exactly when some SeriesMedias row has the filename
  \<open>f\<close>. It is false on the empty database and stays as it is through calls of
  \<open>update_series_media\<close> with another filename; a call with a non-empty \<open>f\<close> succeeds and
  makes it true.\<close>

theorem media_exists_iff:
  "(media_exists f db \<longleftrightarrow> (\<exists>r \<in> set (medias_tbl db). sm_media_filename r = f))
   \<and> \<not> media_exists f empty_db
   \<and> (f \<noteq> [] \<longrightarrow>
        fst (update_series_media now st tv sn en et q vl (Some f) dirty db) = Inr ()
        \<and> media_exists f (snd (update_series_media now st tv sn en et q vl (Some f) dirty db)))
   \<and> (pk_unique db \<and> g \<noteq> f \<longrightarrow>
        media_exists f (snd (update_series_media now st tv sn en et q vl (Some g) dirty db))
          = media_exists f db)"
  using media_exists_set[of f db] update_series_media_inserts[of f now st tv sn en et q vl dirty db]
    update_series_media_other_filename[of db g f now st tv sn en et q vl dirty]
  by (simp add: media_exists_def empty_db_def)

theorem media_exists_iff_witness:
  "''a.mkv'' \<noteq> [] \<and> pk_unique empty_db \<and> ''b.mkv'' \<noteq> ''a.mkv''
   \<and> \<not> media_exists ''a.mkv'' empty_db
   \<and> media_exists ''a.mkv''
        (snd (update_series_media (sample_time 1) None (Some 7) (Some 1) (Some 2) None None None
           (Some ''a.mkv'') True empty_db))
   \<and> \<not> media_exists ''a.mkv''
        (snd (update_series_media (sample_time 1) None (Some 7) (Some 1) (Some 2) None None None
           (Some ''b.mkv'') True empty_db))"
proof -
  have h1: "''a.mkv'' \<noteq> []" by simp
  have h2: "pk_unique empty_db" by (simp add: pk_unique_def empty_db_def)
  have h3: "''b.mkv'' \<noteq> ''a.mkv''" by simp
  from media_exists_iff[of "''a.mkv''" empty_db "sample_time 1" None "Some 7" "Some 1" "Some 2" None None None True "''b.mkv''"]
    h1 h2 h3
  show ?thesis by blast
qed

text \<open>C10: for every row present before a call of \<open>update_series_media\<close>, the row at the
  same place after the call has the same added_timestamp, primary key and episode key; it
  is either the row itself or, when the call's identity key is the row's, the row with the
  descriptive fields, the dirty flag and media_filename assigned from the arguments.\<close>

theorem update_series_media_keeps_added_timestamp:
  assumes "pk_unique db"
    and "db' = snd (update_series_media now st tv sn en et q vl (Some fn) dirty db)"
    and "i < length (medias_tbl db)"
    and "r = medias_tbl db ! i" and "r' = medias_tbl db' ! i"
  shows "i < length (medias_tbl db')
     \<and> sm_added_timestamp r' = sm_added_timestamp r
     \<and> sm_id r' = sm_id r \<and> sm_tv_db_id r' = sm_tv_db_id r
     \<and> sm_season_number r' = sm_season_number r \<and> sm_episode_number r' = sm_episode_number r
     \<and> (r' = r \<or> (identity_key r = (tv, sn, en, fn)
           \<and> r' = r\<lparr>sm_series_title := st, sm_episode_title := et, sm_quality := q,
                    sm_video_languages := vl, sm_dirty := dirty, sm_media_filename := fn\<rparr>))"
proof -
  from update_series_media_frame[OF assms(1), of now st tv sn en et q vl fn dirty] assms(2)
  consider (same) "medias_tbl db' = medias_tbl db"
    | (app) new where "medias_tbl db' = medias_tbl db @ [new]"
    | (upd) r0 where "identity_key r0 = (tv, sn, en, fn)"
        "medias_tbl db' = map (\<lambda>r. if r = r0 then overwrite st et q vl dirty r0 else r) (medias_tbl db)"
    by auto
  thus ?thesis
  proof cases
    case same
    with assms show ?thesis by simp
  next
    case app
    with assms show ?thesis by (simp add: nth_append)
  next
    case upd
    show ?thesis
    proof (cases "r = r0")
      case True
      have "r' = overwrite st et q vl dirty r" using upd(2) assms(3,4,5) True by simp
      moreover have "overwrite st et q vl dirty r = r\<lparr>sm_series_title := st, sm_episode_title := et, sm_quality := q,
                    sm_video_languages := vl, sm_dirty := dirty, sm_media_filename := fn\<rparr>"
        using upd(1) True by (simp add: overwrite_def identity_key_def)
      ultimately show ?thesis using upd assms(3) True by (simp add: overwrite_def)
    next
      case False
      hence "r' = r" using upd(2) assms(3,4,5) by simp
      thus ?thesis using upd(2) assms(3) by simp
    qed
  qed
qed

theorem update_series_media_keeps_added_timestamp_witness:
  "pk_unique
     \<lparr>events_tbl = [],
      medias_tbl = [\<lparr>sm_id = 1, sm_tv_db_id = Some 7, sm_season_number = Some 1,
         sm_episode_number = Some 2, sm_added_timestamp = sample_time 0, sm_series_title = None,
         sm_episode_title = None, sm_quality = None, sm_video_languages = None,
         sm_dirty = True, sm_media_filename = ''a.mkv''\<rparr>],
      subtitles_tbl = []\<rparr>
   \<and> sm_added_timestamp
        (medias_tbl (snd (update_series_media (sample_time 5) (Some ''S'') (Some 7) (Some 1) (Some 2)
           None (Some ''1080p'') None (Some ''a.mkv'') False
           \<lparr>events_tbl = [],
            medias_tbl = [\<lparr>sm_id = 1, sm_tv_db_id = Some 7, sm_season_number = Some 1,
               sm_episode_number = Some 2, sm_added_timestamp = sample_time 0, sm_series_title = None,
               sm_episode_title = None, sm_quality = None, sm_video_languages = None,
               sm_dirty = True, sm_media_filename = ''a.mkv''\<rparr>],
            subtitles_tbl = []\<rparr>)) ! 0) = sample_time 0"
proof -
  let ?db = "\<lparr>events_tbl = [],
      medias_tbl = [\<lparr>sm_id = 1, sm_tv_db_id = Some 7, sm_season_number = Some 1,
         sm_episode_number = Some 2, sm_added_timestamp = sample_time 0, sm_series_title = None,
         sm_episode_title = None, sm_quality = None, sm_video_languages = None,
         sm_dirty = True, sm_media_filename = ''a.mkv''\<rparr>],
      subtitles_tbl = []\<rparr>"
  have h1: "pk_unique ?db" by (simp add: pk_unique_def)
  have h3: "0 < length (medias_tbl ?db)" by simp
  from update_series_media_keeps_added_timestamp[OF h1 refl h3 refl refl,
      of "sample_time 5" "Some ''S''" "Some 7" "Some 1" "Some 2" None "Some ''1080p''" None "''a.mkv''" False]
  have "sm_added_timestamp
        (medias_tbl (snd (update_series_media (sample_time 5) (Some ''S'') (Some 7) (Some 1) (Some 2)
           None (Some ''1080p'') None (Some ''a.mkv'') False ?db)) ! 0) = sm_added_timestamp (medias_tbl ?db ! 0)"
    by blast
  with h1 show ?thesis by simp
qed

text \<open>C5: \<open>get_medias_series\<close> returns the first 100 SeriesMedias rows in descending order
  of series_title (all of them when there are fewer), so never more than 100; the rows come
  in descending order of series_title, and the subtitle_languages of each is sorted.\<close>

theorem get_medias_series_spec:
  "get_medias_series db =
       map (media_to_dict db) (take 100 (order_by_desc sm_series_title (medias_tbl db)))
   \<and> mset (order_by_desc sm_series_title (medias_tbl db)) = mset (medias_tbl db)
   \<and> length (get_medias_series db) = min 100 (length (medias_tbl db))
   \<and> length (get_medias_series db) \<le> 100
   \<and> sorted_wrt (\<lambda>a b. md_series_title b \<le> md_series_title a) (get_medias_series db)
   \<and> (\<forall>row \<in> set (get_medias_series db). sorted (md_subtitle_languages row))"
proof -
  have a: "get_medias_series db =
       map (media_to_dict db) (take 100 (order_by_desc sm_series_title (medias_tbl db)))"
    by (simp add: get_medias_series_def sql_limit_def)
  have "sorted_wrt (\<lambda>a b. sm_series_title b \<le> sm_series_title a)
          (take 100 (order_by_desc sm_series_title (medias_tbl db)))"
    by (rule sorted_wrt_take) (rule sorted_order_by_desc)
  hence s: "sorted_wrt (\<lambda>a b. md_series_title b \<le> md_series_title a) (get_medias_series db)"
    by (simp add: a sorted_wrt_map media_to_dict_def)
  have l: "length (get_medias_series db) = min 100 (length (medias_tbl db))"
    by (simp add: a length_order_by_desc min.commute)
  have q: "\<forall>row \<in> set (get_medias_series db). sorted (md_subtitle_languages row)"
    by (auto simp: a media_to_dict_def)
  from a s l q mset_order_by_desc[of sm_series_title "medias_tbl db"] show ?thesis by simp
qed

theorem get_medias_series_spec_witness:
  "length (get_medias_series sample_db) = 2
   \<and> map md_series_title (get_medias_series sample_db) = [Some ''Show'', Some ''Show'']
   \<and> sorted (md_subtitle_languages (get_medias_series (snd (update_fetched_series_subtitles
         sample_time sample_uid [''fr'', ''de''] True sample_db)) ! 0))
   \<and> map md_subtitle_languages (get_medias_series (snd (update_fetched_series_subtitles
         sample_time sample_uid [''fr'', ''de''] True sample_db))) = [[''de'', ''en'', ''fr''], []]"
proof -
  let ?db = "snd (update_fetched_series_subtitles sample_time sample_uid [''fr'', ''de''] True sample_db)"
  have db: "?db = sample_db\<lparr>subtitles_tbl := subtitles_tbl sample_db @
       [\<lparr>ss_id = 2, ss_added_timestamp = sample_time 0, ss_series_media = 1, ss_language = ''fr''\<rparr>,
        \<lparr>ss_id = 3, ss_added_timestamp = sample_time 1, ss_series_media = 1, ss_language = ''de''\<rparr>]\<rparr>"
    by (simp add: update_fetched_series_subtitles_def get_or_create_def SeriesSubtitles_get_def
          SeriesSubtitles_create_def scalar_subquery_def select_media_def sample_uid_def
          sample_db_def set_dirty_def SeriesMedias_save_def next_rowid_def Let_def)
  have e: "map md_subtitle_languages (get_medias_series ?db) = [[''de'', ''en'', ''fr''], []]"
    unfolding db
    by (simp add: get_medias_series_def sql_limit_def order_by_desc_def media_to_dict_def
          subtitles_of_def sample_db_def)
  hence "length (get_medias_series ?db) = 2" by (metis length_map length_Cons list.size(3) numeral_2_eq_2)
  hence n: "get_medias_series ?db ! 0 \<in> set (get_medias_series ?db)" by simp
  have l: "map md_series_title (get_medias_series sample_db) = [Some ''Show'', Some ''Show'']"
    by (simp add: get_medias_series_def sql_limit_def order_by_desc_def media_to_dict_def
          sample_db_def)
  from get_medias_series_spec[of ?db] n
  have "sorted (md_subtitle_languages (get_medias_series ?db ! 0))" by blast
  moreover have "length (medias_tbl sample_db) = 2" by (simp add: sample_db_def)
  moreover from get_medias_series_spec[of sample_db]
  have "length (get_medias_series sample_db) = min 100 (length (medias_tbl sample_db))" by blast
  ultimately show ?thesis using e l by simp
qed




text \<open>C9: \<open>init\<close> with reset requested removes the file at the path when it can be removed,
  and otherwise returns the error of \<open>unlink\<close>: \<open>FileNotFoundError\<close> when no file is there.
  \<open>init\<close> itself never opens the database; the handle is opened later, at first use, on
  the recorded path.\<close>

theorem init_reset:
  "(fs p = Some Removable \<longrightarrow>
       init p True self fs = (Inr (), self\<lparr>sqlite_db_path := Some p\<rparr>, fs(p := None)))
   \<and> (fs p = None \<longrightarrow>
       init p True self fs = (Inl FileNotFoundError, self\<lparr>sqlite_db_path := Some p\<rparr>, fs))
   \<and> (fst (unlink p fs) = Inl e \<longrightarrow> fst (init p True self fs) = Inl e)
   \<and> db_handle (fst (snd (init p reset_db self fs))) = db_handle self
   \<and> db_handle (database_property (fst (snd (init p reset_db DopplerrDb_new fs)))) = Some (Some p)"
  by (auto simp: init_def unlink_def Let_def database_property_def DopplerrDb_new_def
        split: option.splits file_entry.splits)

theorem init_reset_witness:
  "init ''dopplerr.sqlite'' True DopplerrDb_new Map.empty
     = (Inl FileNotFoundError, DopplerrDb_new\<lparr>sqlite_db_path := Some ''dopplerr.sqlite''\<rparr>, Map.empty)
   \<and> init ''dopplerr.sqlite'' True DopplerrDb_new [''dopplerr.sqlite'' \<mapsto> Removable]
     = (Inr (), DopplerrDb_new\<lparr>sqlite_db_path := Some ''dopplerr.sqlite''\<rparr>, Map.empty)
   \<and> fst (unlink ''dopplerr.sqlite'' [''dopplerr.sqlite'' \<mapsto> Protected]) = Inl PermissionError
   \<and> fst (init ''dopplerr.sqlite'' True DopplerrDb_new [''dopplerr.sqlite'' \<mapsto> Protected])
     = Inl PermissionError"
proof -
  have u: "fst (unlink ''dopplerr.sqlite'' [''dopplerr.sqlite'' \<mapsto> Protected]) = Inl PermissionError"
    by (simp add: unlink_def)
  from init_reset[where fs = Map.empty and p = "''dopplerr.sqlite''" and self = DopplerrDb_new]
    init_reset[where fs = "[''dopplerr.sqlite'' \<mapsto> Removable]" and p = "''dopplerr.sqlite''"
      and self = DopplerrDb_new]
    init_reset[where fs = "[''dopplerr.sqlite'' \<mapsto> Protected]" and p = "''dopplerr.sqlite''"
      and e = PermissionError and self = DopplerrDb_new] u
  show ?thesis by simp
qed

text \<open>C1: on a database with unique primary keys in which no two subtitle rows have the
  same (series_media, language) pair, two calls of \<open>update_fetched_series_subtitles\<close> for
  one episode UID, with any two language sequences, leave no two rows with the same pair
  after either call. When a media row matches the UID both calls succeed and the pairs
  afterwards are the pairs before together with the languages of both calls for the first
  matched media; when none matches, the subtitle table is unchanged.\<close>

theorem update_fetched_no_duplicate_subtitles:
  assumes "pk_unique db" and "distinct (subtitle_pairs db)"
    and "db1 = snd (update_fetched_series_subtitles now1 uid langs1 dirty1 db)"
    and "db2 = snd (update_fetched_series_subtitles now2 uid langs2 dirty2 db1)"
  shows "distinct (subtitle_pairs db1) \<and> distinct (subtitle_pairs db2)
     \<and> (\<forall>mid. scalar_subquery (select_media uid db) = Some mid \<longrightarrow>
           fst (update_fetched_series_subtitles now1 uid langs1 dirty1 db) = Inr ()
         \<and> fst (update_fetched_series_subtitles now2 uid langs2 dirty2 db1) = Inr ()
         \<and> set (subtitle_pairs db2) = set (subtitle_pairs db) \<union> {mid} \<times> (set langs1 \<union> set langs2))
     \<and> (scalar_subquery (select_media uid db) = None \<longrightarrow> subtitles_tbl db2 = subtitles_tbl db)"
proof -
  note e1 = update_fetched_effect[OF assms(1), of now1 uid langs1 dirty1, folded assms(3)]
  from e1 have m1: "medias_tbl db1 = map (\<lambda>r. if matches_uid uid r then r\<lparr>sm_dirty := dirty1\<rparr> else r) (medias_tbl db)"
    by simp
  have pk1: "pk_unique db1" by (rule pk_unique_dirty[OF m1 assms(1)])
  have rep: "scalar_subquery (select_media uid db1) = scalar_subquery (select_media uid db)"
    by (rule scalar_subquery_dirty[OF m1])
  note e2 = update_fetched_effect[OF pk1, of now2 uid langs2 dirty2, folded assms(4)]
  show ?thesis
  proof (cases "scalar_subquery (select_media uid db)")
    case None
    from e1 None have "db1 = db" by (simp add: assms(3))
    moreover from e2 rep None have "db2 = db1" by (simp add: assms(4))
    ultimately show ?thesis using None assms(2) by simp
  next
    case (Some mid)
    from e1 Some assms(2) have d1: "distinct (subtitle_pairs db1)"
      and r1: "fst (update_fetched_series_subtitles now1 uid langs1 dirty1 db) = Inr ()"
      and p1: "set (subtitle_pairs db1) = set (subtitle_pairs db) \<union> {mid} \<times> set langs1"
      by simp_all
    from e2 rep Some d1 have d2: "distinct (subtitle_pairs db2)"
      and r2: "fst (update_fetched_series_subtitles now2 uid langs2 dirty2 db1) = Inr ()"
      and p2: "set (subtitle_pairs db2) = set (subtitle_pairs db1) \<union> {mid} \<times> set langs2"
      by simp_all
    have "set (subtitle_pairs db2) = set (subtitle_pairs db) \<union> {mid} \<times> (set langs1 \<union> set langs2)"
      using p1 p2 by auto
    with Some d1 d2 r1 r2 show ?thesis by simp
  qed
qed

theorem update_fetched_no_duplicate_subtitles_witness:
  "pk_unique sample_db \<and> distinct (subtitle_pairs sample_db)
   \<and> scalar_subquery (select_media sample_uid sample_db) = Some 1
   \<and> distinct (subtitle_pairs
        (snd (update_fetched_series_subtitles sample_time sample_uid [''fr'', ''de''] True
           (snd (update_fetched_series_subtitles sample_time sample_uid [''en'', ''fr''] True
              sample_db)))))
   \<and> set (subtitle_pairs
        (snd (update_fetched_series_subtitles sample_time sample_uid [''fr'', ''de''] True
           (snd (update_fetched_series_subtitles sample_time sample_uid [''en'', ''fr''] True
              sample_db)))))
       = {(1, ''en''), (1, ''fr''), (1, ''de'')}"
proof -
  have h1: "pk_unique sample_db" by (simp add: pk_unique_def sample_db_def)
  have h2: "distinct (subtitle_pairs sample_db)" by (simp add: subtitle_pairs_def sample_db_def)
  have h3: "scalar_subquery (select_media sample_uid sample_db) = Some 1"
    by (simp add: scalar_subquery_def select_media_def sample_uid_def sample_db_def)
  have p: "set (subtitle_pairs sample_db) = {(1, ''en'')}"
    by (simp add: subtitle_pairs_def sample_db_def)
  from update_fetched_no_duplicate_subtitles[OF h1 h2 refl refl,
      of sample_time sample_uid "[''en'', ''fr'']" True sample_time "[''fr'', ''de'']" True] h3 p
  have "distinct (subtitle_pairs
        (snd (update_fetched_series_subtitles sample_time sample_uid [''fr'', ''de''] True
           (snd (update_fetched_series_subtitles sample_time sample_uid [''en'', ''fr''] True
              sample_db)))))"
    and "set (subtitle_pairs
        (snd (update_fetched_series_subtitles sample_time sample_uid [''fr'', ''de''] True
           (snd (update_fetched_series_subtitles sample_time sample_uid [''en'', ''fr''] True
              sample_db)))))
       = {(1, ''en'')} \<union> {1} \<times> (set [''en'', ''fr''] \<union> set [''fr'', ''de''])"
    by simp_all
  with h1 h2 h3 show ?thesis by auto
qed

text \<open>C4: after a call of \<open>update_fetched_series_subtitles\<close> with any language sequence,
  the empty one included, the media table has the same rows in the same places, where a
  row that matches the UID has its dirty flag set to the argument and nothing else changed,
  and a row that does not match is unchanged.\<close>

theorem update_fetched_sets_dirty:
  assumes "pk_unique db"
    and "db' = snd (update_fetched_series_subtitles now uid langs dirty db)"
    and "i < length (medias_tbl db)"
    and "r = medias_tbl db ! i" and "r' = medias_tbl db' ! i"
  shows "length (medias_tbl db') = length (medias_tbl db)
     \<and> (matches_uid uid r \<longrightarrow> r' = r\<lparr>sm_dirty := dirty\<rparr> \<and> sm_dirty r' = dirty)
     \<and> (\<not> matches_uid uid r \<longrightarrow> r' = r)"
proof -
  from update_fetched_effect[OF assms(1), of now uid langs dirty] assms(2)
  have "medias_tbl db' = map (\<lambda>r. if matches_uid uid r then r\<lparr>sm_dirty := dirty\<rparr> else r) (medias_tbl db)"
    by simp
  with assms(3,4,5) show ?thesis by simp
qed

theorem update_fetched_sets_dirty_witness:
  "pk_unique sample_db \<and> 0 < length (medias_tbl sample_db)
   \<and> matches_uid sample_uid (medias_tbl sample_db ! 0)
   \<and> \<not> matches_uid sample_uid (medias_tbl sample_db ! 1)
   \<and> sm_dirty (medias_tbl (snd (update_fetched_series_subtitles sample_time sample_uid [] False
         sample_db)) ! 0) = False
   \<and> medias_tbl (snd (update_fetched_series_subtitles sample_time sample_uid [] False sample_db)) ! 1
       = medias_tbl sample_db ! 1"
proof -
  have h1: "pk_unique sample_db" by (simp add: pk_unique_def sample_db_def)
  have h0: "0 < length (medias_tbl sample_db)" by (simp add: sample_db_def)
  have h2: "1 < length (medias_tbl sample_db)" by (simp add: sample_db_def)
  have m0: "matches_uid sample_uid (medias_tbl sample_db ! 0)"
    by (simp add: matches_uid_def sample_uid_def sample_db_def)
  have m1: "\<not> matches_uid sample_uid (medias_tbl sample_db ! 1)"
    by (simp add: matches_uid_def sample_uid_def sample_db_def)
  from update_fetched_sets_dirty[OF h1 refl h0 refl refl, of sample_time sample_uid "[]" False]
    update_fetched_sets_dirty[OF h1 refl h2 refl refl, of sample_time sample_uid "[]" False]
    h1 h0 m0 m1
  show ?thesis by blast
qed

end
